theory Spec2Isabelle
  imports Complex_Main "HOL-Library.Product_Lexorder"
begin

section \<open>SiteGenie: niche scoring and recommendation pipeline\<close>

text \<open>
  A shallow embedding of \<^verbatim>\<open>src/nicheAnalysis.js\<close> (the niche analysis module) and of
  \<^verbatim>\<open>scoreDomain\<close> in the domain registry module.

  JavaScript strings are \<open>string\<close>s (lists of code units). JavaScript numbers are the
  type \<open>jsnum\<close> below: the three special values of IEEE arithmetic that the code can
  produce (\<open>NaN\<close>, \<open>-Infinity\<close>, \<open>Infinity\<close>) and the finite numbers; the sign of
  zero is not represented. There are two arithmetics on them. The scorers compute a
  numeric value, and there the operations on finite numbers are exact (\<open>jadd\<close>,
  \<open>jmul\<close>, ...): their results are the code's up to the rounding of the last places.
  Where a rounded value decides something discrete (the comparator of the ranking, the
  floors and the volume threshold of candidate generation and of the mock data) every
  operation and every decimal literal is rounded to binary64 as the code's are (\<open>fadd\<close>,
  \<open>fmul\<close>, ..., \<open>binary64\<close>). Where a function can only ever hold finite numbers
  (\<^verbatim>\<open>scoreDomain\<close>, the commercial-intent counter) it computes in \<open>real\<close>.
\<close>

subsection \<open>The domain candidate scorer\<close>

text \<open>\<^verbatim>\<open>String.prototype.split('.')\<close>: the pieces between the dots, never an empty array.\<close>

fun split_dot :: "string \<Rightarrow> string list" where
  "split_dot [] = [[]]"
| "split_dot (c # cs) =
     (if c = CHR ''.'' then [] # split_dot cs
      else (case split_dot cs of [] \<Rightarrow> [[c]] | p # ps \<Rightarrow> (c # p) # ps))"

text \<open>\<^verbatim>\<open>arr[i]\<close>: \<open>None\<close> is \<^verbatim>\<open>undefined\<close>.\<close>

fun index :: "'a list \<Rightarrow> nat \<Rightarrow> 'a option" where
  "index [] i = None"
| "index (x # xs) 0 = Some x"
| "index (x # xs) (Suc i) = index xs i"

text \<open>The regular expressions of \<^verbatim>\<open>scoreDomain\<close>.\<close>

definition is_digit :: "char \<Rightarrow> bool" where
  \<comment> \<open>\<^verbatim>\<open>\d\<close>\<close>
  "is_digit c = (c \<in> set ''0123456789'')"

definition is_lower :: "char \<Rightarrow> bool" where
  \<comment> \<open>\<^verbatim>\<open>[a-z]\<close>\<close>
  "is_lower c = (c \<in> set ''abcdefghijklmnopqrstuvwxyz'')"

definition is_consonant :: "char \<Rightarrow> bool" where
  \<comment> \<open>\<^verbatim>\<open>[bcdfghjklmnpqrstvwxyz]\<close>\<close>
  "is_consonant c = (c \<in> set ''bcdfghjklmnpqrstvwxyz'')"

definition is_vowel :: "char \<Rightarrow> bool" where
  \<comment> \<open>\<^verbatim>\<open>[aeiou]\<close>\<close>
  "is_vowel c = (c \<in> set ''aeiou'')"

fun has_double_letter :: "string \<Rightarrow> bool" where
  \<comment> \<open>\<^verbatim>\<open>/([a-z])\1/.test(s)\<close>\<close>
  "has_double_letter (a # b # cs) = ((is_lower a \<and> a = b) \<or> has_double_letter (b # cs))"
| "has_double_letter _ = False"

definition scoreDomain :: "string \<Rightarrow> real" where
  "scoreDomain domain =
    (let domainName = (case index (split_dot domain) 0 of None \<Rightarrow> [] | Some p \<Rightarrow> p);
         tld = index (split_dot domain) 1;
         score = 5;
         len = length domainName;
         score = (if len \<le> 5 then score + 2
                  else if len \<le> 10 then score + 1.5
                  else if len \<le> 15 then score + 1
                  else if len > 20 then score - 1
                  else score);
         score = (if tld = Some ''com'' then score + 2
                  else if tld = Some ''org'' \<or> tld = Some ''net'' then score + 1
                  else if tld = Some ''io'' \<or> tld = Some ''co'' then score + 0.5
                  else score);
         score = (if CHR ''-'' \<in> set domainName then score - 0.5 else score);
         score = (if list_ex is_digit domainName then score - 0.5 else score);
         score = (if has_double_letter domainName then score - 0.3 else score);
         consonants = length (filter is_consonant domainName);
         vowels = length (filter is_vowel domainName);
         ratio = real consonants / real (if vowels = 0 then 1 else vowels);
         score = (if ratio \<ge> 1 \<and> ratio \<le> 2.5 then score + 1
                  else if ratio > 2.5 then score - 0.5
                  else score)
     in max 0 (min 10 score))"

subsection \<open>JavaScript numbers\<close>

datatype jsnum = NaN | NegInf | Fin real | PosInf

text \<open>\<^verbatim>\<open>a + b\<close>\<close>

fun jadd :: "jsnum \<Rightarrow> jsnum \<Rightarrow> jsnum" where
  "jadd (Fin a) (Fin b) = Fin (a + b)"
| "jadd NaN y = NaN"
| "jadd x NaN = NaN"
| "jadd PosInf NegInf = NaN"
| "jadd NegInf PosInf = NaN"
| "jadd PosInf y = PosInf"
| "jadd x PosInf = PosInf"
| "jadd NegInf y = NegInf"
| "jadd x NegInf = NegInf"

text \<open>\<^verbatim>\<open>-a\<close> and \<^verbatim>\<open>a - b\<close>\<close>

fun jneg :: "jsnum \<Rightarrow> jsnum" where
  "jneg NaN = NaN"
| "jneg NegInf = PosInf"
| "jneg (Fin a) = Fin (- a)"
| "jneg PosInf = NegInf"

definition jsub :: "jsnum \<Rightarrow> jsnum \<Rightarrow> jsnum" where
  "jsub x y = jadd x (jneg y)"

text \<open>\<^verbatim>\<open>a * b\<close>: an infinity times zero is \<^verbatim>\<open>NaN\<close>.\<close>

fun jmul :: "jsnum \<Rightarrow> jsnum \<Rightarrow> jsnum" where
  "jmul (Fin a) (Fin b) = Fin (a * b)"
| "jmul NaN y = NaN"
| "jmul x NaN = NaN"
| "jmul (Fin a) PosInf = (if a = 0 then NaN else if 0 < a then PosInf else NegInf)"
| "jmul (Fin a) NegInf = (if a = 0 then NaN else if 0 < a then NegInf else PosInf)"
| "jmul PosInf (Fin b) = (if b = 0 then NaN else if 0 < b then PosInf else NegInf)"
| "jmul NegInf (Fin b) = (if b = 0 then NaN else if 0 < b then NegInf else PosInf)"
| "jmul PosInf PosInf = PosInf"
| "jmul PosInf NegInf = NegInf"
| "jmul NegInf PosInf = NegInf"
| "jmul NegInf NegInf = PosInf"

text \<open>\<^verbatim>\<open>a / b\<close>: a finite number over zero is an infinity (of the sign of the numerator,
  zero being taken as positive), zero over zero is \<^verbatim>\<open>NaN\<close>.\<close>

fun jdiv :: "jsnum \<Rightarrow> jsnum \<Rightarrow> jsnum" where
  "jdiv (Fin a) (Fin b) =
     (if b = 0 then (if a = 0 then NaN else if 0 < a then PosInf else NegInf)
      else Fin (a / b))"
| "jdiv NaN y = NaN"
| "jdiv x NaN = NaN"
| "jdiv (Fin a) PosInf = Fin 0"
| "jdiv (Fin a) NegInf = Fin 0"
| "jdiv PosInf (Fin b) = (if 0 \<le> b then PosInf else NegInf)"
| "jdiv NegInf (Fin b) = (if 0 \<le> b then NegInf else PosInf)"
| "jdiv PosInf PosInf = NaN"
| "jdiv PosInf NegInf = NaN"
| "jdiv NegInf PosInf = NaN"
| "jdiv NegInf NegInf = NaN"

text \<open>\<^verbatim>\<open>Math.min(a, b)\<close> and \<^verbatim>\<open>Math.max(a, b)\<close>: \<^verbatim>\<open>NaN\<close> if either argument is.\<close>

fun jmin :: "jsnum \<Rightarrow> jsnum \<Rightarrow> jsnum" where
  "jmin (Fin a) (Fin b) = Fin (min a b)"
| "jmin NaN y = NaN"
| "jmin x NaN = NaN"
| "jmin NegInf y = NegInf"
| "jmin x NegInf = NegInf"
| "jmin PosInf y = y"
| "jmin x PosInf = x"

fun jmax :: "jsnum \<Rightarrow> jsnum \<Rightarrow> jsnum" where
  "jmax (Fin a) (Fin b) = Fin (max a b)"
| "jmax NaN y = NaN"
| "jmax x NaN = NaN"
| "jmax PosInf y = PosInf"
| "jmax x PosInf = PosInf"
| "jmax NegInf y = y"
| "jmax x NegInf = x"

text \<open>\<^verbatim>\<open>Math.log10(a)\<close>: \<^verbatim>\<open>-Infinity\<close> at zero, \<^verbatim>\<open>NaN\<close> below it.\<close>

fun jlog10 :: "jsnum \<Rightarrow> jsnum" where
  "jlog10 NaN = NaN"
| "jlog10 NegInf = NaN"
| "jlog10 (Fin a) = (if a < 0 then NaN else if a = 0 then NegInf else Fin (log 10 a))"
| "jlog10 PosInf = PosInf"

text \<open>\<^verbatim>\<open>Math.floor(a)\<close>\<close>

fun jfloor :: "jsnum \<Rightarrow> jsnum" where
  "jfloor (Fin a) = Fin (of_int \<lfloor>a\<rfloor>)"
| "jfloor x = x"

text \<open>\<^verbatim>\<open>a >= b\<close> and \<^verbatim>\<open>a > b\<close>: false as soon as one side is \<^verbatim>\<open>NaN\<close>.\<close>

fun jge :: "jsnum \<Rightarrow> jsnum \<Rightarrow> bool" where
  "jge (Fin a) (Fin b) = (b \<le> a)"
| "jge NaN y = False"
| "jge x NaN = False"
| "jge PosInf y = True"
| "jge x NegInf = True"
| "jge x PosInf = False"
| "jge NegInf y = False"

fun jgt :: "jsnum \<Rightarrow> jsnum \<Rightarrow> bool" where
  "jgt (Fin a) (Fin b) = (b < a)"
| "jgt NaN y = False"
| "jgt x NaN = False"
| "jgt PosInf PosInf = False"
| "jgt PosInf y = True"
| "jgt NegInf y = False"
| "jgt x NegInf = True"
| "jgt x PosInf = False"

text \<open>
  Rounding to binary64: to the nearest number with a significand of 53 bits, a tie going to
  the even significand, and to an infinity from \<open>2\<^sup>1\<^sup>0\<^sup>2\<^sup>4\<close> on. \<open>quantum x\<close> is the
  spacing of such numbers at the magnitude of \<open>x\<close>. Gradual underflow (the coarser spacing
  below \<open>2\<^sup>-\<^sup>1\<^sup>0\<^sup>2\<^sup>2\<close>) is not represented.
\<close>

definition round_half_even :: "real \<Rightarrow> int" where
  "round_half_even y =
     (if frac y < 1 / 2 then \<lfloor>y\<rfloor>
      else if 1 / 2 < frac y then \<lfloor>y\<rfloor> + 1
      else if even \<lfloor>y\<rfloor> then \<lfloor>y\<rfloor> else \<lfloor>y\<rfloor> + 1)"

definition quantum :: "real \<Rightarrow> real" where
  "quantum x = 2 powr of_int (\<lfloor>log 2 \<bar>x\<bar>\<rfloor> - 52)"

definition binary64 :: "real \<Rightarrow> jsnum" where
  "binary64 x =
     (if x = 0 then Fin 0
      else if 2 ^ 1024 \<le> of_int (round_half_even (x / quantum x)) * quantum x then PosInf
      else if of_int (round_half_even (x / quantum x)) * quantum x \<le> - (2 ^ 1024) then NegInf
      else Fin (of_int (round_half_even (x / quantum x)) * quantum x))"

fun jround :: "jsnum \<Rightarrow> jsnum" where
  "jround (Fin a) = binary64 a"
| "jround x = x"

text \<open>The operations as the code performs them: the exact result, rounded.\<close>

definition fadd :: "jsnum \<Rightarrow> jsnum \<Rightarrow> jsnum" where
  "fadd x y = jround (jadd x y)"

definition fsub :: "jsnum \<Rightarrow> jsnum \<Rightarrow> jsnum" where
  "fsub x y = jround (jsub x y)"

definition fmul :: "jsnum \<Rightarrow> jsnum \<Rightarrow> jsnum" where
  "fmul x y = jround (jmul x y)"

definition fdiv :: "jsnum \<Rightarrow> jsnum \<Rightarrow> jsnum" where
  "fdiv x y = jround (jdiv x y)"

text \<open>\<^verbatim>\<open>parseFloat(a.toFixed(2))\<close>: \<^verbatim>\<open>toFixed\<close> rounds the magnitude to the nearest
  hundredth, a tie going up, and prints numbers of magnitude \<open>10\<^sup>2\<^sup>1\<close> or more, and the
  special values, as \<^verbatim>\<open>toString\<close> does, which \<^verbatim>\<open>parseFloat\<close> reads back.\<close>

fun toFixed2 :: "jsnum \<Rightarrow> jsnum" where
  "toFixed2 (Fin a) =
     (if 10 ^ 21 \<le> \<bar>a\<bar> then Fin a
      else Fin (sgn a * of_int \<lfloor>\<bar>a\<bar> * 100 + 1 / 2\<rfloor> / 100))"
| "toFixed2 x = x"

subsection \<open>Strings\<close>

text \<open>\<^verbatim>\<open>s.startsWith(t)\<close> and \<^verbatim>\<open>s.includes(t)\<close>: \<open>t\<close> occurs in \<open>s\<close> as a
  contiguous run of code units.\<close>

fun js_startsWith :: "string \<Rightarrow> string \<Rightarrow> bool" where
  "js_startsWith s [] = True"
| "js_startsWith [] (c # t) = False"
| "js_startsWith (a # s) (c # t) = (a = c \<and> js_startsWith s t)"

fun js_includes :: "string \<Rightarrow> string \<Rightarrow> bool" where
  "js_includes [] t = (t = [])"
| "js_includes (a # s) t = (js_startsWith (a # s) t \<or> js_includes s t)"

subsection \<open>Candidate niches and the scorers that need no provider\<close>

record competitor =
  domain :: string
  domain_authority :: jsnum
  estimated_traffic :: jsnum

text \<open>A candidate niche, as \<^verbatim>\<open>generateNicheRecommendations\<close> builds it: every field is
  present, so the guard \<^verbatim>\<open>niche.related_keywords || []\<close> of the monetization scorer
  always takes its left side.\<close>

record niche =
  niche_name :: string
  monthly_search_volume :: jsnum
  competition :: jsnum
  estimated_cpc :: jsnum
  related_keywords :: "string list"
  top_competitors :: "competitor list"

definition commercialKeywords :: "string list" where
  "commercialKeywords =
     [''buy'', ''price'', ''review'', ''best'', ''top'', ''vs'', ''cheap'', ''affordable'',
      ''deal'', ''sale'']"

text \<open>The commercial-intent factor of \<^verbatim>\<open>evaluateMonetizationPotential\<close>: the
  \<^verbatim>\<open>forEach\<close> over the vocabulary adding 0.2 per term found, then the cap.\<close>

definition commercialIntentScore :: "string list \<Rightarrow> real" where
  "commercialIntentScore nicheTerms =
     min 2 (fold (\<lambda>term score.
                    if list_ex (\<lambda>nicheTerm. js_includes nicheTerm term) nicheTerms
                    then score + 0.2 else score)
                 commercialKeywords 0)"

definition evaluateMonetizationPotential :: "'a niche_scheme \<Rightarrow> jsnum" where
  "evaluateMonetizationPotential niche =
    (let cpcFactor = jmin (Fin 5) (jmul (estimated_cpc niche) (Fin 2));
         volumeFactor = jmin (Fin 3) (jsub (jlog10 (monthly_search_volume niche)) (Fin 2));
         nicheTerms = niche_name niche # related_keywords niche;
         finalScore = jadd (jadd cpcFactor volumeFactor) (Fin (commercialIntentScore nicheTerms))
     in jmin (Fin 10) finalScore)"

subsection \<open>Exceptions, effects and the outside world\<close>

text \<open>
  A thrown value is an object with a \<^verbatim>\<open>message\<close> (an \<^verbatim>\<open>Error\<close>), or \<^verbatim>\<open>undefined\<close>, or
  \<^verbatim>\<open>null\<close>, or some other value without a \<^verbatim>\<open>message\<close>: a rejected promise carries
  whatever its collaborator rejected with. The logger does not throw. The functions that await
  something or draw a random number run in a state: the outside world (providers, random
  generator, data store), whose type is left open, and a trace of the pipeline steps and
  store operations performed so far. Promises awaited as a batch are run one after the
  other, in the order of the array.
\<close>

datatype exn = Exn (message: string) | ThrownUndefined | ThrownNull | ThrownOther

datatype query =
    BEGIN
  | SELECT_niche string
  | UPDATE_niche jsnum jsnum jsnum jsnum jsnum nat
  | INSERT_niche string jsnum jsnum jsnum jsnum jsnum
  | DELETE_keywords nat
  | INSERT_keyword nat string
  | DELETE_competitors nat
  | INSERT_competitor nat string jsnum jsnum
  | COMMIT
  | ROLLBACK

datatype event =
    FetchKeyword string
  | GenerateCandidates
  | ScoreNiche string
  | Connect
  | Query query
  | Release

record 'w st =
  world :: 'w
  trace :: "event list"

type_synonym ('a, 'w) io = "'w st \<Rightarrow> (exn + 'a) \<times> 'w st"

definition ret :: "'a \<Rightarrow> ('a, 'w) io" where
  "ret x s = (Inr x, s)"

definition throw :: "exn \<Rightarrow> ('a, 'w) io" where
  "throw e s = (Inl e, s)"

definition bind :: "('a, 'w) io \<Rightarrow> ('a \<Rightarrow> ('b, 'w) io) \<Rightarrow> ('b, 'w) io" where
  "bind m f s = (case m s of (Inl e, s') \<Rightarrow> (Inl e, s') | (Inr x, s') \<Rightarrow> f x s')"

definition catch :: "('a, 'w) io \<Rightarrow> (exn \<Rightarrow> ('a, 'w) io) \<Rightarrow> ('a, 'w) io" where
  \<comment> \<open>\<^verbatim>\<open>try { m } catch (e) { h }\<close>\<close>
  "catch m h s = (case m s of (Inl e, s') \<Rightarrow> h e s' | (Inr x, s') \<Rightarrow> (Inr x, s'))"

definition emit :: "event \<Rightarrow> (unit, 'w) io" where
  "emit ev s = (Inr (), s\<lparr>trace := trace s @ [ev]\<rparr>)"

definition perform :: "('w \<Rightarrow> (exn + 'a) \<times> 'w) \<Rightarrow> ('a, 'w) io" where
  "perform op s = (case op (world s) of (r, w) \<Rightarrow> (r, s\<lparr>world := w\<rparr>))"

text \<open>\<^verbatim>\<open>await Promise.all(ms)\<close>: every promise of the batch runs; the batch is rejected
  with the first rejection, in array order.\<close>

fun promise_all :: "('a, 'w) io list \<Rightarrow> ('a list, 'w) io" where
  "promise_all [] s = (Inr [], s)"
| "promise_all (m # ms) s =
     (case m s of (r, s1) \<Rightarrow>
        (case promise_all ms s1 of (rs, s2) \<Rightarrow>
           (case r of
              Inl e \<Rightarrow> (Inl e, s2)
            | Inr x \<Rightarrow> (case rs of Inl e \<Rightarrow> (Inl e, s2) | Inr xs \<Rightarrow> (Inr (x # xs), s2)))))"

text \<open>What \<^verbatim>\<open>fetchKeywordData\<close> resolves to: the record of a keyword
  (\<^verbatim>\<open>success: true\<close>) or the marker of a keyword without data.\<close>

datatype kw_data =
    KeywordData (keyword: string) (search_volume: jsnum) (kd_competition: jsnum) (cpc: jsnum)
                (kd_related_keywords: "string list")
  | KeywordFailure (keyword: string) (kd_error: string)

fun kd_success :: "kw_data \<Rightarrow> bool" where
  "kd_success (KeywordData _ _ _ _ _) = True"
| "kd_success (KeywordFailure _ _) = False"

text \<open>The historical metrics of the first result of the keyword planner.\<close>

record metrics =
  avg_monthly_searches :: jsnum
  competition_index :: jsnum
  high_top_of_page_bid_micros :: jsnum

text \<open>A page of the backlink provider's answer.\<close>

record site =
  url :: string
  domain_rating :: jsnum
  organic_traffic :: jsnum
  backlinks :: jsnum

text \<open>
  The module's configuration (read from \<^verbatim>\<open>process.env\<close>; \<open>None\<close> is an unset
  variable) and its collaborators, each an operation on the outside world.
  \<open>keyword_search\<close> and \<open>related_search\<close> are the two \<^verbatim>\<open>axios.post\<close> calls to the
  keyword planner: the first answers with the metrics of \<^verbatim>\<open>results[0]\<close> when there is a
  result, the second with the keyword texts when there are results. \<open>ahrefs_positions\<close>
  is the \<^verbatim>\<open>axios.get\<close> of the competition scorer, answering with
  \<^verbatim>\<open>response.data.pages\<close> when they are there. \<open>trends_explore\<close> is the request of
  the trending scorer, parsed down to the \<^verbatim>\<open>value[0]\<close> of each point of the timeline.
  The store's queries answer with the \<^verbatim>\<open>id\<close>s of their rows. An answer that cannot be
  read this way is an exception of the call.
\<close>

record 'w env =
  KEYWORD_PLANNER_API_KEY :: "string option"
  AHREFS_API_KEY :: "string option"
  GOOGLE_TRENDS_API_KEY :: "string option"
  SAVE_ANALYSIS_RESULTS :: "string option"
  keyword_search :: "string \<Rightarrow> 'w \<Rightarrow> (exn + metrics option) \<times> 'w"
  related_search :: "string \<Rightarrow> 'w \<Rightarrow> (exn + string list option) \<times> 'w"
  math_random :: "'w \<Rightarrow> real \<times> 'w"
  ahrefs_positions :: "string \<Rightarrow> 'w \<Rightarrow> (exn + site list option) \<times> 'w"
  trends_explore :: "string \<Rightarrow> 'w \<Rightarrow> (exn + jsnum list) \<times> 'w"
  pool_connect :: "'w \<Rightarrow> (exn + unit) \<times> 'w"
  client_query :: "query \<Rightarrow> 'w \<Rightarrow> (exn + nat list) \<times> 'w"
  client_release :: "'w \<Rightarrow> 'w"
  date_now :: "'w \<Rightarrow> string"

definition falsy :: "string option \<Rightarrow> bool" where
  \<comment> \<open>\<^verbatim>\<open>!key\<close>: unset or the empty string\<close>
  "falsy k = (case k of None \<Rightarrow> True | Some v \<Rightarrow> v = [])"

definition random :: "'w env \<Rightarrow> (real, 'w) io" where
  \<comment> \<open>\<^verbatim>\<open>Math.random()\<close>\<close>
  "random env s = (case math_random env (world s) of (r, w) \<Rightarrow> (Inr r, s\<lparr>world := w\<rparr>))"

subsection \<open>Keyword data\<close>

text \<open>The related keywords of the mock data, before they are cut to length.\<close>

definition mock_related :: "string \<Rightarrow> string list" where
  "mock_related k =
     map (\<lambda>prefix. prefix @ '' '' @ k)
         [''best'', ''top'', ''affordable'', ''premium'', ''how to'', ''why'', ''when to'']
     @ map (\<lambda>suffix. k @ '' '' @ suffix)
         [''guide'', ''tutorial'', ''review'', ''tips'', ''for beginners'', ''services'',
          ''near me'']"

definition mockKeywordData :: "'w env \<Rightarrow> string \<Rightarrow> (kw_data, 'w) io" where
  "mockKeywordData env k =
     bind (random env) (\<lambda>r1.
     bind (random env) (\<lambda>r2.
     bind (random env) (\<lambda>r3.
       (let keywordLength = length k;
            searchVolume =
              jfloor (fadd (Fin 1000)
                        (fmul (fmul (Fin (real keywordLength)) (Fin 500))
                              (fadd (binary64 0.5) (Fin r1))));
            mockCompetition =
              jmin (fadd (fadd (binary64 0.1)
                               (fdiv (Fin (real (keywordLength mod 10))) (Fin 20)))
                         (fmul (Fin r2) (binary64 0.3)))
                   (Fin 1);
            mockCpc =
              fadd (fadd (binary64 0.5)
                         (fmul (Fin (real (keywordLength mod 5))) (binary64 0.3)))
                   (Fin r3)
        in ret (KeywordData k searchVolume mockCompetition mockCpc
                  (take 10 (mock_related k)))))))"

definition fetchRelatedKeywords :: "'w env \<Rightarrow> string \<Rightarrow> (string list, 'w) io" where
  "fetchRelatedKeywords env k =
     catch
       (if falsy (KEYWORD_PLANNER_API_KEY env) then ret (take 15 (mock_related k))
        else bind (perform (related_search env k)) (\<lambda>results.
               (case results of Some texts \<Rightarrow> ret texts | None \<Rightarrow> ret [])))
       (\<lambda>error. ret [])"

definition fetchKeywordData :: "'w env \<Rightarrow> string \<Rightarrow> (kw_data, 'w) io" where
  "fetchKeywordData env k =
     bind (emit (FetchKeyword k)) (\<lambda>_.
     catch
       (if falsy (KEYWORD_PLANNER_API_KEY env) then mockKeywordData env k
        else bind (perform (keyword_search env k)) (\<lambda>result.
               (case result of
                  Some keywordData \<Rightarrow>
                    bind (fetchRelatedKeywords env k) (\<lambda>relatedKeywords.
                      ret (KeywordData k
                             (avg_monthly_searches keywordData)
                             (jdiv (competition_index keywordData) (Fin 100))
                             (jdiv (high_top_of_page_bid_micros keywordData) (Fin 1000000))
                             relatedKeywords))
                | None \<Rightarrow> ret (KeywordFailure k ''No data found for this keyword''))))
       (\<lambda>error. mockKeywordData env k))"

subsection \<open>Candidate generation\<close>

text \<open>The inner \<^verbatim>\<open>forEach\<close> of \<^verbatim>\<open>generateNicheRecommendations\<close>, over the related
  keywords of one keyword record.\<close>

fun related_niches :: "'w env \<Rightarrow> kw_data \<Rightarrow> string list \<Rightarrow> (niche list, 'w) io" where
  "related_niches env data [] s = (Inr [], s)"
| "related_niches env data (relatedKeyword # rest) s =
     (if length relatedKeyword < 5 \<or> relatedKeyword = keyword data
      then related_niches env data rest s
      else (case math_random env (world s) of (r1, w1) \<Rightarrow>
        (let searchVolMod = fadd (binary64 0.3) (fmul (Fin r1) (binary64 0.7));
             searchVolume = jfloor (fmul (search_volume data) searchVolMod)
         in if jge searchVolume (Fin 1000)
            then (case math_random env w1 of (r2, w2) \<Rightarrow>
                   (case math_random env w2 of (r3, w3) \<Rightarrow>
                     (case related_niches env data rest (s\<lparr>world := w3\<rparr>) of
                        (Inl e, s') \<Rightarrow> (Inl e, s')
                      | (Inr niches, s') \<Rightarrow>
                          (Inr (\<lparr>niche_name = relatedKeyword,
                                 monthly_search_volume = searchVolume,
                                 competition =
                                   fmul (kd_competition data)
                                        (fadd (binary64 0.8) (fmul (Fin r2) (binary64 0.4))),
                                 estimated_cpc =
                                   fmul (cpc data)
                                        (fadd (binary64 0.8) (fmul (Fin r3) (binary64 0.4))),
                                 related_keywords =
                                   keyword data #
                                   take 5 (filter (\<lambda>k. k \<noteq> relatedKeyword) (kd_related_keywords data)),
                                 top_competitors = []\<rparr> # niches), s'))))
            else related_niches env data rest (s\<lparr>world := w1\<rparr>))))"

text \<open>The outer \<^verbatim>\<open>forEach\<close>, over the keyword records.\<close>

fun keyword_niches :: "'w env \<Rightarrow> kw_data list \<Rightarrow> (niche list, 'w) io" where
  "keyword_niches env [] s = (Inr [], s)"
| "keyword_niches env (data # rest) s =
     (if \<not> kd_success data then keyword_niches env rest s
      else (case related_niches env data (kd_related_keywords data) s of
              (Inl e, s1) \<Rightarrow> (Inl e, s1)
            | (Inr derived, s1) \<Rightarrow>
                (case keyword_niches env rest s1 of
                   (Inl e, s2) \<Rightarrow> (Inl e, s2)
                 | (Inr niches, s2) \<Rightarrow>
                     (Inr (\<lparr>niche_name = keyword data,
                            monthly_search_volume = search_volume data,
                            competition = kd_competition data,
                            estimated_cpc = cpc data,
                            related_keywords = kd_related_keywords data,
                            top_competitors = []\<rparr> # derived @ niches), s2))))"

text \<open>The \<^verbatim>\<open>preferences\<close> option: absent, \<^verbatim>\<open>null\<close>, or an object whose
  \<^verbatim>\<open>industry\<close> may be absent.\<close>

datatype prefs_field = PrefsUndefined | PrefsNull | Prefs "string option"

definition generateNicheRecommendations ::
  "'w env \<Rightarrow> kw_data list \<Rightarrow> prefs_field \<Rightarrow> (niche list, 'w) io" where
  "generateNicheRecommendations env keywordDataList preferences =
     bind (emit GenerateCandidates) (\<lambda>_.
     bind (keyword_niches env keywordDataList) (\<lambda>niches.
       (case preferences of
          PrefsNull \<Rightarrow> throw (Exn ''Cannot read properties of null (reading 'industry')'')
        | PrefsUndefined \<Rightarrow> throw (Exn ''Cannot read properties of undefined (reading 'industry')'')
        | Prefs None \<Rightarrow> ret niches
        | Prefs (Some industry) \<Rightarrow>
            (if industry = [] then ret niches
             else ret (filter (\<lambda>niche.
                     js_includes (niche_name niche) industry \<or>
                     list_ex (\<lambda>k. js_includes k industry) (related_keywords niche))
                   niches)))))"

subsection \<open>The competition and trending scorers\<close>

text \<open>\<^verbatim>\<open>calculateCompetitionScore\<close> returns the score and leaves the competitors it found
  in the niche it was given; here the niche comes back with the score.\<close>

definition calculateCompetitionScore :: "'w env \<Rightarrow> niche \<Rightarrow> (jsnum \<times> niche, 'w) io" where
  "calculateCompetitionScore env niche =
     catch
       (if falsy (AHREFS_API_KEY env) then
          (let baseScore = jmul (competition niche) (Fin 100);
               volumeAdjustment = jmul (jlog10 (monthly_search_volume niche)) (Fin 2);
               cpcAdjustment = jmul (estimated_cpc niche) (Fin 5);
               finalScore =
                 jadd (jadd (jmul baseScore (Fin 0.6)) (jmul volumeAdjustment (Fin 0.2)))
                      (jmul cpcAdjustment (Fin 0.2))
           in ret (jmin (Fin 100) (jmax (Fin 0) finalScore), niche))
        else
          bind (perform (ahrefs_positions env (niche_name niche))) (\<lambda>pages.
            (case pages of
               Some found \<Rightarrow>
                 (let topSites = take 10 found;
                      competitors =
                        map (\<lambda>site. \<lparr>domain = url site,
                                       domain_authority = domain_rating site,
                                       estimated_traffic = organic_traffic site\<rparr>) topSites;
                      avgDomainAuthority =
                        jdiv (fold (\<lambda>site sum. jadd sum (domain_rating site)) topSites (Fin 0))
                             (Fin (real (length topSites)));
                      avgBacklinks =
                        jdiv (fold (\<lambda>site sum. jadd sum (backlinks site)) topSites (Fin 0))
                             (Fin (real (length topSites)))
                  in ret (jmin (Fin 100)
                            (jadd (jmul avgDomainAuthority (Fin 0.7))
                                  (jmul (jlog10 avgBacklinks) (Fin 3))),
                          niche\<lparr>top_competitors := competitors\<rparr>))
             | None \<Rightarrow> ret (jmul (competition niche) (Fin 100), niche))))
       (\<lambda>error. ret (jadd (jmul (competition niche) (Fin 80)) (Fin 20), niche))"

text \<open>The regression sums of the trending scorer: the loop over \<open>i\<close> from 0, with
  \<open>x[i] = i\<close>.\<close>

fun trend_sums :: "nat \<Rightarrow> jsnum list \<Rightarrow> jsnum \<times> jsnum \<times> jsnum \<times> jsnum
    \<Rightarrow> jsnum \<times> jsnum \<times> jsnum \<times> jsnum" where
  "trend_sums i [] acc = acc"
| "trend_sums i (yi # ys) (sumX, sumY, sumXY, sumXX) =
     trend_sums (Suc i) ys
       (jadd sumX (Fin (real i)), jadd sumY yi,
        jadd sumXY (jmul (Fin (real i)) yi), jadd sumXX (Fin (real i * real i)))"

definition calculateTrendingScore :: "'w env \<Rightarrow> string \<Rightarrow> (jsnum, 'w) io" where
  "calculateTrendingScore env nicheName =
     catch
       (if falsy (GOOGLE_TRENDS_API_KEY env) then
          (let hash = fold (\<lambda>char acc. acc + of_char char) nicheName (0::nat);
               baseScore = real (hash mod 60) / 10 + 2
           in bind (random env) (\<lambda>r. ret (jmin (Fin 10) (Fin (baseScore + (r * 2 - 1))))))
        else
          bind (perform (trends_explore env nicheName)) (\<lambda>y.
            (let n = Fin (real (length y));
                 avgInterest = jdiv (fold (\<lambda>v sum. jadd sum v) y (Fin 0)) n;
                 (sumX, sumY, sumXY, sumXX) = trend_sums 0 y (Fin 0, Fin 0, Fin 0, Fin 0);
                 slope = jdiv (jsub (jmul n sumXY) (jmul sumX sumY))
                              (jsub (jmul n sumXX) (jmul sumX sumX));
                 trendScore = jadd (jdiv avgInterest (Fin 20)) (jmul slope (Fin 20))
             in ret (jmin (Fin 10) (jmax (Fin 0) trendScore)))))
       (\<lambda>error. ret (Fin 5))"

subsection \<open>Scoring, filtering and ranking\<close>

record scored_niche = niche +
  competition_score :: jsnum
  monetization_potential :: jsnum
  trending_score :: jsnum

text \<open>The body of the \<^verbatim>\<open>niches.map(async niche => ...)\<close> of step 3.\<close>

definition scoreNiche :: "'w env \<Rightarrow> niche \<Rightarrow> (scored_niche, 'w) io" where
  "scoreNiche env niche0 =
     bind (emit (ScoreNiche (niche_name niche0))) (\<lambda>_.
     bind (calculateCompetitionScore env niche0) (\<lambda>(competitionScore, niche).
     bind (calculateTrendingScore env (niche_name niche)) (\<lambda>trendingScore.
       ret \<lparr>niche_name = niche_name niche,
            monthly_search_volume = monthly_search_volume niche,
            competition = competition niche,
            estimated_cpc = estimated_cpc niche,
            related_keywords = related_keywords niche,
            top_competitors = top_competitors niche,
            competition_score = competitionScore,
            monetization_potential = evaluateMonetizationPotential niche,
            trending_score = trendingScore\<rparr>)))"

text \<open>The comparator of step 4, every operation rounded.\<close>

definition weightedScore :: "scored_niche \<Rightarrow> jsnum" where
  "weightedScore a =
     fadd (fadd (fmul (fsub (Fin 10) (competition_score a)) (binary64 0.4))
                (fmul (monetization_potential a) (binary64 0.4)))
          (fmul (trending_score a) (binary64 0.2))"

definition compareNiches :: "scored_niche \<Rightarrow> scored_niche \<Rightarrow> jsnum" where
  "compareNiches a b = fsub (weightedScore b) (weightedScore a)"

text \<open>
  \<^verbatim>\<open>Array.prototype.sort(cmp)\<close> is a stable sort: \<open>a\<close> goes after \<open>b\<close> only when
  \<open>cmp a b > 0\<close>, and a \<^verbatim>\<open>NaN\<close> comparison counts as a tie. It is written as an
  insertion sort; on a comparator that is a total preorder every stable sort gives the same
  array.
\<close>

fun js_insert :: "('a \<Rightarrow> 'a \<Rightarrow> jsnum) \<Rightarrow> 'a \<Rightarrow> 'a list \<Rightarrow> 'a list" where
  "js_insert cmp x [] = [x]"
| "js_insert cmp x (y # ys) =
     (if jgt (cmp x y) (Fin 0) then y # js_insert cmp x ys else x # y # ys)"

definition js_sort :: "('a \<Rightarrow> 'a \<Rightarrow> jsnum) \<Rightarrow> 'a list \<Rightarrow> 'a list" where
  "js_sort cmp xs = foldr (js_insert cmp) xs []"

text \<open>\<^verbatim>\<open>xs.slice(0, limit)\<close> for an integer \<open>limit\<close>: a negative one counts from the
  end.\<close>

definition js_slice0 :: "'a list \<Rightarrow> int \<Rightarrow> 'a list" where
  "js_slice0 xs limit =
     (if limit < 0 then take (nat (int (length xs) + limit)) xs else take (nat limit) xs)"

definition filteredNiches :: "int \<Rightarrow> scored_niche list \<Rightarrow> scored_niche list" where
  "filteredNiches limit scoredNiches =
     js_slice0
       (js_sort compareNiches
          (filter (\<lambda>niche. jge (monetization_potential niche) (Fin 6)) scoredNiches))
       limit"

subsection \<open>Persistence\<close>

definition client_query_io :: "'w env \<Rightarrow> query \<Rightarrow> (nat list, 'w) io" where
  \<comment> \<open>\<^verbatim>\<open>await client.query(...)\<close>\<close>
  "client_query_io env q = bind (emit (Query q)) (\<lambda>_. perform (client_query env q))"

fun save_keywords :: "'w env \<Rightarrow> nat \<Rightarrow> string list \<Rightarrow> (unit, 'w) io" where
  "save_keywords env nicheId [] s = (Inr (), s)"
| "save_keywords env nicheId (k # rest) s =
     (case client_query_io env (INSERT_keyword nicheId k) s of
        (Inl e, s') \<Rightarrow> (Inl e, s')
      | (Inr _, s') \<Rightarrow> save_keywords env nicheId rest s')"

fun save_competitors :: "'w env \<Rightarrow> nat \<Rightarrow> competitor list \<Rightarrow> (unit, 'w) io" where
  "save_competitors env nicheId [] s = (Inr (), s)"
| "save_competitors env nicheId (c # rest) s =
     (case client_query_io env
             (INSERT_competitor nicheId (domain c) (domain_authority c) (estimated_traffic c)) s of
        (Inl e, s') \<Rightarrow> (Inl e, s')
      | (Inr _, s') \<Rightarrow> save_competitors env nicheId rest s')"

text \<open>One turn of the \<^verbatim>\<open>for (const niche of niches)\<close> loop. \<^verbatim>\<open>rows[0].id\<close> of an
  answer without rows is a \<^verbatim>\<open>TypeError\<close>.\<close>

definition save_niche :: "'w env \<Rightarrow> scored_niche \<Rightarrow> (unit, 'w) io" where
  "save_niche env niche =
     bind (client_query_io env (SELECT_niche (niche_name niche))) (\<lambda>checkRows.
     bind (case checkRows of
             existing # _ \<Rightarrow>
               bind (client_query_io env
                       (UPDATE_niche (monthly_search_volume niche) (competition_score niche)
                          (monetization_potential niche) (trending_score niche)
                          (estimated_cpc niche) existing))
                    (\<lambda>_. ret existing)
           | [] \<Rightarrow>
               bind (client_query_io env
                       (INSERT_niche (niche_name niche) (monthly_search_volume niche)
                          (competition_score niche) (monetization_potential niche)
                          (trending_score niche) (estimated_cpc niche)))
                    (\<lambda>rows. case rows of
                               [] \<Rightarrow> throw (Exn ''Cannot read properties of undefined (reading 'id')'')
                             | inserted # _ \<Rightarrow> ret inserted))
       (\<lambda>nicheId.
     bind (if related_keywords niche \<noteq> []
           then bind (client_query_io env (DELETE_keywords nicheId))
                     (\<lambda>_. save_keywords env nicheId (related_keywords niche))
           else ret ())
       (\<lambda>_.
          if top_competitors niche \<noteq> []
          then bind (client_query_io env (DELETE_competitors nicheId))
                    (\<lambda>_. save_competitors env nicheId (top_competitors niche))
          else ret ())))"

fun save_niches :: "'w env \<Rightarrow> scored_niche list \<Rightarrow> (unit, 'w) io" where
  "save_niches env [] s = (Inr (), s)"
| "save_niches env (niche # rest) s =
     (case save_niche env niche s of
        (Inl e, s') \<Rightarrow> (Inl e, s')
      | (Inr _, s') \<Rightarrow> save_niches env rest s')"

definition release :: "'w env \<Rightarrow> 'w st \<Rightarrow> 'w st" where
  \<comment> \<open>\<^verbatim>\<open>client.release()\<close>\<close>
  "release env s = \<lparr>world = client_release env (world s), trace = trace s @ [Release]\<rparr>"

text \<open>
  \<^verbatim>\<open>saveAnalysisResults\<close>: when \<^verbatim>\<open>pool.connect()\<close> is rejected there is no client, so
  nothing is rolled back or released; otherwise an error of the transaction is answered by
  \<^verbatim>\<open>ROLLBACK\<close> and thrown again (an error of the \<^verbatim>\<open>ROLLBACK\<close> itself takes its place),
  and the client is released on every path.
\<close>

definition saveAnalysisResults :: "'w env \<Rightarrow> scored_niche list \<Rightarrow> (unit, 'w) io" where
  "saveAnalysisResults env niches s =
     (case bind (emit Connect) (\<lambda>_. perform (pool_connect env)) s of
        (Inl error, s1) \<Rightarrow> (Inl error, s1)
      | (Inr _, s1) \<Rightarrow>
          (case bind (client_query_io env BEGIN) (\<lambda>_.
                bind (save_niches env niches) (\<lambda>_.
                bind (client_query_io env COMMIT) (\<lambda>_. ret ()))) s1 of
             (Inr _, s2) \<Rightarrow> (Inr (), release env s2)
           | (Inl error, s2) \<Rightarrow>
               (case client_query_io env ROLLBACK s2 of
                  (Inl error2, s3) \<Rightarrow> (Inl error2, release env s3)
                | (Inr _, s3) \<Rightarrow> (Inl error, release env s3))))"

subsection \<open>The request, the response and \<^verbatim>\<open>analyzeNiche\<close>\<close>

text \<open>The \<^verbatim>\<open>keywords\<close> option: absent, \<^verbatim>\<open>null\<close>, a value that is not an array, or an
  array of strings. The fields of a request are the options of the same names.\<close>

datatype keywords_field = KwUndefined | KwNull | KwNotArray | KwArray "string list"

record request =
  opt_keywords :: keywords_field
  opt_limit :: "int option"
  opt_preferences :: prefs_field
  opt_includeKeywordData :: bool

text \<open>The argument of \<^verbatim>\<open>analyzeNiche\<close>: \<^verbatim>\<open>undefined\<close>, \<^verbatim>\<open>null\<close>, a primitive value
  (which has none of the options) or an object.\<close>

datatype options = OptUndefined | OptNull | OptPrimitive | OptObject request

record recommendation =
  r_niche_name :: string
  r_monthly_search_volume :: jsnum
  r_competition_score :: jsnum
  r_monetization_potential :: jsnum
  r_trending_score :: jsnum
  r_estimated_cpc :: jsnum
  r_related_keywords :: "string list"
  r_top_competitors :: "competitor list"

record keyword_entry =
  k_keyword :: string
  k_search_volume :: jsnum
  k_cpc :: jsnum
  k_competition :: jsnum

text \<open>The object \<^verbatim>\<open>analyzeNiche\<close> resolves to. \<open>details\<close> stands for the
  \<^verbatim>\<open>stack\<close> of the exception it names.\<close>

datatype response =
    Success (timestamp: string) (niche_recommendations: "recommendation list")
            (keyword_data: "keyword_entry list option")
  | Failure (error: string) (details: "exn option")

fun success :: "response \<Rightarrow> bool" where
  "success (Success _ _ _) = True"
| "success (Failure _ _) = False"

definition recommendation_of :: "scored_niche \<Rightarrow> recommendation" where
  "recommendation_of niche =
     \<lparr>r_niche_name = niche_name niche,
      r_monthly_search_volume = monthly_search_volume niche,
      r_competition_score = toFixed2 (competition_score niche),
      r_monetization_potential = toFixed2 (monetization_potential niche),
      r_trending_score = toFixed2 (trending_score niche),
      r_estimated_cpc = toFixed2 (estimated_cpc niche),
      r_related_keywords = take 10 (related_keywords niche),
      r_top_competitors = take 5 (top_competitors niche)\<rparr>"

definition keyword_entry_of :: "kw_data \<Rightarrow> keyword_entry" where
  "keyword_entry_of data =
     \<lparr>k_keyword = keyword data, k_search_volume = search_volume data,
      k_cpc = cpc data, k_competition = kd_competition data\<rparr>"

text \<open>Steps 4 and 5 and the response: what \<^verbatim>\<open>analyzeNiche\<close> does with the scored
  niches.\<close>

definition finishAnalysis ::
  "'w env \<Rightarrow> int \<Rightarrow> bool \<Rightarrow> kw_data list \<Rightarrow> scored_niche list \<Rightarrow> (response, 'w) io" where
  "finishAnalysis env limit includeKeywordData validKeywordData scoredNiches =
     bind (if SAVE_ANALYSIS_RESULTS env = Some ''true''
           then saveAnalysisResults env (filteredNiches limit scoredNiches)
           else ret ()) (\<lambda>_.
       (\<lambda>s. (Inr (Success (date_now env (world s))
                     (map recommendation_of (filteredNiches limit scoredNiches))
                     (if includeKeywordData then Some (map keyword_entry_of validKeywordData)
                      else None)), s)))"

text \<open>Steps 1 to 3, for a non-empty array of keywords, and then the above.\<close>

definition analyzeKeywords ::
  "'w env \<Rightarrow> string list \<Rightarrow> int \<Rightarrow> prefs_field \<Rightarrow> bool \<Rightarrow> (response, 'w) io" where
  "analyzeKeywords env keywordList limit preferences includeKeywordData =
     bind (promise_all (map (fetchKeywordData env) keywordList)) (\<lambda>keywordDataResults.
       (let validKeywordData = filter kd_success keywordDataResults
        in if validKeywordData = []
           then ret (Failure ''Failed to retrieve valid data for any of the provided keywords'' None)
           else
             bind (generateNicheRecommendations env validKeywordData preferences) (\<lambda>niches.
             bind (promise_all (map (scoreNiche env) niches)) (\<lambda>scoredNiches.
               finishAnalysis env limit includeKeywordData validKeywordData scoredNiches))))"

text \<open>The \<^verbatim>\<open>try\<close> block: destructuring with its defaults, validation, the pipeline.\<close>

definition analyzeNiche_try :: "'w env \<Rightarrow> options \<Rightarrow> (response, 'w) io" where
  "analyzeNiche_try env opts =
     (case opts of
        OptUndefined \<Rightarrow>
          throw (Exn ''Cannot destructure property 'keywords' of 'options' as it is undefined.'')
      | OptNull \<Rightarrow>
          throw (Exn ''Cannot destructure property 'keywords' of 'options' as it is null.'')
      | OptPrimitive \<Rightarrow> ret (Failure ''No keywords provided for niche analysis'' None)
      | OptObject req \<Rightarrow>
          (case opt_keywords req of
             KwArray (k # ks) \<Rightarrow>
               analyzeKeywords env (k # ks)
                 (case opt_limit req of None \<Rightarrow> 5 | Some l \<Rightarrow> l)
                 (case opt_preferences req of PrefsUndefined \<Rightarrow> Prefs None | p \<Rightarrow> p)
                 (opt_includeKeywordData req)
           | _ \<Rightarrow> ret (Failure ''No keywords provided for niche analysis'' None)))"

text \<open>\<^verbatim>\<open>analyzeNiche\<close>: the \<^verbatim>\<open>try\<close> block under its \<^verbatim>\<open>catch\<close>. The handler reads
  \<^verbatim>\<open>error.message\<close> and \<^verbatim>\<open>error.stack\<close>, which is itself a \<^verbatim>\<open>TypeError\<close> when the
  value caught is \<^verbatim>\<open>undefined\<close> or \<^verbatim>\<open>null\<close>; a value without these properties gives
  the text \<^verbatim>\<open>undefined\<close> and no details.\<close>

definition analyzeNiche :: "'w env \<Rightarrow> options \<Rightarrow> (response, 'w) io" where
  "analyzeNiche env opts =
     catch (analyzeNiche_try env opts)
       (\<lambda>err.
          (case err of
             Exn m \<Rightarrow> ret (Failure (''Niche analysis failed: '' @ m) (Some err))
           | ThrownUndefined \<Rightarrow>
               throw (Exn ''Cannot read properties of undefined (reading 'message')'')
           | ThrownNull \<Rightarrow>
               throw (Exn ''Cannot read properties of null (reading 'message')'')
           | ThrownOther \<Rightarrow> ret (Failure ''Niche analysis failed: undefined'' None)))"

section \<open>The specification's formulas and sample inputs\<close>

text \<open>The competition score as the specification writes it, on real numbers. At a search
  volume of zero the logarithm is \<open>-\<infinity>\<close>, and the clamp of \<open>-\<infinity>\<close> is 0.\<close>

definition clamp :: "real \<Rightarrow> real \<Rightarrow> real \<Rightarrow> real" where
  "clamp lo hi x = min hi (max lo x)"

definition spec_competition_score :: "real \<Rightarrow> real \<Rightarrow> real \<Rightarrow> real" where
  "spec_competition_score c v p =
     (if v = 0 then 0
      else clamp 0 100 (0.6 * (c * 100) + 0.2 * (log 10 v * 2) + 0.2 * (p * 5)))"

text \<open>
  The ranking as the specification writes it: drop the candidates below 6, rank by the
  weighted score \<open>0.4*(10 - competition_score) + 0.4*monetization_potential +
  0.2*trending_score\<close> (in the arithmetic of the code), descending and stable, truncate to
  the limit. \<open>sort_key\<close> is the stable insertion sort of the library, ascending in its
  key; \<open>descending\<close> is a key under which ascending is the descending order of numbers
  (\<^verbatim>\<open>Infinity\<close>, the finite numbers from the largest, \<^verbatim>\<open>-Infinity\<close>). \<^verbatim>\<open>NaN\<close>, which
  compares with nothing, gets a place of its own that no theorem relies on.
\<close>

definition spec_weighted :: "scored_niche \<Rightarrow> jsnum" where
  "spec_weighted n =
     fadd (fadd (fmul (binary64 0.4) (fsub (Fin 10) (competition_score n)))
                (fmul (binary64 0.4) (monetization_potential n)))
          (fmul (binary64 0.2) (trending_score n))"

fun descending :: "jsnum \<Rightarrow> int \<times> real" where
  "descending PosInf = (- 1, 0)"
| "descending (Fin a) = (0, - a)"
| "descending NegInf = (1, 0)"
| "descending NaN = (2, 0)"












text \<open>
  A sample run: the keyword planner knows every keyword (1000 searches a month, competition
  index 50, a bid of 3 dollars, no related keywords), no backlink or trends provider is
  configured, the random generator always answers one half, and the store answers every
  query with one row. In \<open>failing_store_env\<close> results are saved and the store refuses
  every query except \<^verbatim>\<open>BEGIN\<close> and \<^verbatim>\<open>ROLLBACK\<close>. In \<open>failing_provider_env\<close> a
  backlink provider is configured and its call fails. In \<open>rejecting_store_env\<close> results
  are saved and \<^verbatim>\<open>pool.connect()\<close> is rejected with \<^verbatim>\<open>undefined\<close>.
\<close>

definition demo_env :: "unit env" where
  "demo_env =
     \<lparr>KEYWORD_PLANNER_API_KEY = Some ''key'', AHREFS_API_KEY = None,
      GOOGLE_TRENDS_API_KEY = None, SAVE_ANALYSIS_RESULTS = None,
      keyword_search =
        (\<lambda>k w. (Inr (Some \<lparr>avg_monthly_searches = Fin 1000, competition_index = Fin 50,
                             high_top_of_page_bid_micros = Fin 3000000\<rparr>), w)),
      related_search = (\<lambda>k w. (Inr (Some []), w)),
      math_random = (\<lambda>w. (1 / 2, w)),
      ahrefs_positions = (\<lambda>n w. (Inr None, w)),
      trends_explore = (\<lambda>n w. (Inr [], w)),
      pool_connect = (\<lambda>w. (Inr (), w)),
      client_query = (\<lambda>q w. (Inr [1], w)),
      client_release = (\<lambda>w. w),
      date_now = (\<lambda>w. ''2024-01-01T00:00:00.000Z'')\<rparr>"

definition failing_store_env :: "unit env" where
  "failing_store_env =
     demo_env
       \<lparr>SAVE_ANALYSIS_RESULTS := Some ''true'',
        client_query :=
          (\<lambda>q w. (if q = BEGIN \<or> q = ROLLBACK then Inr []
                    else Inl (Exn ''Database error''), w))\<rparr>"

definition failing_provider_env :: "unit env" where
  "failing_provider_env =
     demo_env
       \<lparr>AHREFS_API_KEY := Some ''token'',
        ahrefs_positions := (\<lambda>n w. (Inl (Exn ''API request failed''), w))\<rparr>"


definition demo_request :: request where
  "demo_request =
     \<lparr>opt_keywords = KwArray [''best deal''], opt_limit = None,
      opt_preferences = PrefsUndefined, opt_includeKeywordData = False\<rparr>"

definition demo_data :: kw_data where
  "demo_data = KeywordData ''best deal'' (Fin 1000) (Fin 0.5) (Fin 3) []"

definition demo_niche :: niche where
  "demo_niche =
     \<lparr>niche_name = ''best deal'', monthly_search_volume = Fin 1000, competition = Fin 0.5,
      estimated_cpc = Fin 3, related_keywords = [], top_competitors = []\<rparr>"

definition demo_scored :: scored_niche where
  "demo_scored =
     \<lparr>niche_name = ''best deal'', monthly_search_volume = Fin 1000, competition = Fin 0.5,
      estimated_cpc = Fin 3, related_keywords = [], top_competitors = [],
      competition_score = Fin 34.2, monetization_potential = Fin 6.4,
      trending_score = Fin 4.8\<rparr>"

definition start :: "unit st" where
  "start = \<lparr>world = (), trace = []\<rparr>"

section \<open>Properties\<close>

subsection \<open>The domain scorer\<close>

lemma scoreDomain_short: "scoreDomain ''short.com'' = 8.5"
  by code_simp

lemma scoreDomain_long: "scoreDomain ''averylongdomainnamewithoutbreaks.com'' = 6.7"
  by code_simp

lemma scoreDomain_range: "0 \<le> scoreDomain d \<and> scoreDomain d \<le> 10"
  unfolding scoreDomain_def Let_def
  by (rule conjI, rule max.cobounded1, rule max.boundedI, simp, rule min.cobounded1)

text \<open>
  C9. \<^verbatim>\<open>scoreDomain("short.com")\<close> (8.5) is strictly greater than
  \<^verbatim>\<open>scoreDomain("averylongdomainnamewithoutbreaks.com")\<close> (6.7), and for every input
  string the result lies in the closed interval from 0 to 10. The scorer is a function of
  its argument alone (no state, no I/O), which is what makes it a HOL function here.
\<close>

theorem C9_scoreDomain:
  "scoreDomain ''short.com'' > scoreDomain ''averylongdomainnamewithoutbreaks.com''
   \<and> (\<forall>d. 0 \<le> scoreDomain d \<and> scoreDomain d \<le> 10)"
  by (simp add: scoreDomain_short scoreDomain_long scoreDomain_range)

subsection \<open>The monetization scorer\<close>

lemma commercial_none: "commercialIntentScore [''x''] = 0"
  by code_simp

lemma commercial_best_deal: "commercialIntentScore [''best deal''] = 0.4"
  by code_simp

lemma log10_1000: "log 10 1000 = 3"
proof -
  have "log 10 (10 ^ 3) = real 3" by (rule log_pow_cancel) simp_all
  then show ?thesis by simp
qed

text \<open>
  C1. The score of \<^verbatim>\<open>evaluateMonetizationPotential\<close> is not kept at or above 0: only
  \<^verbatim>\<open>Math.min(10, ...)\<close> is applied. A niche with a search volume of 1, a CPC of 0 and no
  commercial term scores \<open>0 + (log10 1 - 2) + 0 = -2\<close>, and with a search volume of 0 it
  scores \<^verbatim>\<open>-Infinity\<close>.
\<close>

theorem C1_monetization_below_zero:
  "evaluateMonetizationPotential
     \<lparr>niche_name = ''x'', monthly_search_volume = Fin 1, competition = Fin 0,
      estimated_cpc = Fin 0, related_keywords = [], top_competitors = []\<rparr> = Fin (- 2)
   \<and> evaluateMonetizationPotential
     \<lparr>niche_name = ''x'', monthly_search_volume = Fin 0, competition = Fin 0,
      estimated_cpc = Fin 0, related_keywords = [], top_competitors = []\<rparr> = NegInf"
  by (simp add: evaluateMonetizationPotential_def jsub_def commercial_none)

text \<open>What does hold: the score never exceeds 10, and a niche that reaches the
  recommendations has passed the filter \<^verbatim>\<open>monetization_potential >= 6\<close>.\<close>

lemma jmin_10_upper: "jmin (Fin 10) x = Fin a \<Longrightarrow> a \<le> 10"
  by (cases x) auto

lemma evaluateMonetizationPotential_upper:
  "evaluateMonetizationPotential n = Fin a \<Longrightarrow> a \<le> 10"
  unfolding evaluateMonetizationPotential_def Let_def by (rule jmin_10_upper)

lemma set_js_insert: "set (js_insert cmp x ys) = insert x (set ys)"
  by (induction ys) auto

lemma set_js_sort: "set (js_sort cmp xs) = set xs"
  by (induction xs) (simp_all add: js_sort_def set_js_insert)

lemma filteredNiches_passed_filter:
  "n \<in> set (filteredNiches limit scoredNiches) \<Longrightarrow> jge (monetization_potential n) (Fin 6)"
proof -
  assume "n \<in> set (filteredNiches limit scoredNiches)"
  then have "n \<in> set (js_sort compareNiches
      (filter (\<lambda>niche. jge (monetization_potential niche) (Fin 6)) scoredNiches))"
    unfolding filteredNiches_def js_slice0_def by (auto split: if_splits dest: in_set_takeD)
  then show ?thesis by (simp add: set_js_sort)
qed

lemma fold_count:
  "fold (\<lambda>term score. if P term then score + 0.2 else score) ts (a::real)
     = a + 0.2 * real (length (filter P ts))"
  by (induction ts arbitrary: a) (simp_all add: algebra_simps)

text \<open>\<^verbatim>\<open>includes\<close> is the substring test, on the code units as they are.\<close>

lemma js_startsWith_iff: "js_startsWith s t \<longleftrightarrow> (\<exists>q. s = t @ q)"
  by (induction s t rule: js_startsWith.induct) auto

lemma js_includes_iff: "js_includes s t \<longleftrightarrow> (\<exists>p q. s = p @ t @ q)"
proof (induction s)
  case Nil
  then show ?case by simp
next
  case (Cons a s)
  have "(\<exists>p q. a # s = p @ t @ q) \<longleftrightarrow> (\<exists>q. a # s = t @ q) \<or> (\<exists>p q. s = p @ t @ q)"
  proof
    assume "\<exists>p q. a # s = p @ t @ q"
    then obtain p q where e: "a # s = p @ t @ q" by blast
    show "(\<exists>q. a # s = t @ q) \<or> (\<exists>p q. s = p @ t @ q)"
    proof (cases p)
      case Nil
      then show ?thesis using e by auto
    next
      case (Cons b p')
      then show ?thesis using e by auto
    qed
  next
    assume "(\<exists>q. a # s = t @ q) \<or> (\<exists>p q. s = p @ t @ q)"
    then show "\<exists>p q. a # s = p @ t @ q"
    proof
      assume "\<exists>q. a # s = t @ q"
      then obtain q where "a # s = [] @ t @ q" by auto
      then show ?thesis by blast
    next
      assume "\<exists>p q. s = p @ t @ q"
      then obtain p q where "a # s = (a # p) @ t @ q" by auto
      then show ?thesis by blast
    qed
  qed
  then show ?case using Cons by (simp add: js_startsWith_iff)
qed

text \<open>
  C6. The commercial-intent factor inside \<^verbatim>\<open>evaluateMonetizationPotential\<close> is 0.2 times
  the number of terms of the vocabulary buy, price, review, best, top, vs, cheap,
  affordable, deal, sale that occur as a substring (\<^verbatim>\<open>includes\<close>, case-sensitive) in the
  niche name or in some related keyword, capped at 2. The vocabulary has no repetition, so
  a term counts once however many strings contain it.
\<close>

theorem C6_commercial_intent:
  "commercialIntentScore (niche_name n # related_keywords n)
     = min 2 (0.2 * real (length (filter
          (\<lambda>term. list_ex (\<lambda>nicheTerm. js_includes nicheTerm term)
                     (niche_name n # related_keywords n))
          commercialKeywords)))
   \<and> evaluateMonetizationPotential n
     = jmin (Fin 10)
        (jadd (jadd (jmin (Fin 5) (jmul (estimated_cpc n) (Fin 2)))
                    (jmin (Fin 3) (jsub (jlog10 (monthly_search_volume n)) (Fin 2))))
              (Fin (commercialIntentScore (niche_name n # related_keywords n))))
   \<and> distinct commercialKeywords
   \<and> set commercialKeywords
     = {''buy'', ''price'', ''review'', ''best'', ''top'', ''vs'', ''cheap'', ''affordable'',
        ''deal'', ''sale''}
   \<and> (\<forall>s t. js_includes s t = (\<exists>p q. s = p @ t @ q))"
proof -
  have 1: "commercialIntentScore (niche_name n # related_keywords n)
     = min 2 (0.2 * real (length (filter
          (\<lambda>term. list_ex (\<lambda>nicheTerm. js_includes nicheTerm term)
                     (niche_name n # related_keywords n))
          commercialKeywords)))"
    unfolding commercialIntentScore_def by (simp add: fold_count)
  have 2: "evaluateMonetizationPotential n
     = jmin (Fin 10)
        (jadd (jadd (jmin (Fin 5) (jmul (estimated_cpc n) (Fin 2)))
                    (jmin (Fin 3) (jsub (jlog10 (monthly_search_volume n)) (Fin 2))))
              (Fin (commercialIntentScore (niche_name n # related_keywords n))))"
    by (simp add: evaluateMonetizationPotential_def Let_def)
  have 3: "distinct commercialKeywords" by (simp add: commercialKeywords_def)
  have 4: "set commercialKeywords
     = {''buy'', ''price'', ''review'', ''best'', ''top'', ''vs'', ''cheap'', ''affordable'',
        ''deal'', ''sale''}" by (simp add: commercialKeywords_def)
  show ?thesis using 1 2 3 4 js_includes_iff by blast
qed

subsection \<open>The competition scorer\<close>

lemma demo_monetization: "evaluateMonetizationPotential demo_niche = Fin 6.4"
  by (simp add: evaluateMonetizationPotential_def demo_niche_def jsub_def log10_1000
      commercial_best_deal)

text \<open>
  C4. With no backlink provider configured, for a niche whose competition is a number in
  \<open>[0,1]\<close>, whose CPC is a number at or above 0 and whose search volume is a number at or
  above 0, \<^verbatim>\<open>calculateCompetitionScore\<close> resolves to
  \<open>clamp(0, 100, 0.6*(competition*100) + 0.2*(log10(volume)*2) + 0.2*(cpc*5))\<close>, the value
  being 0 at volume 0, where the logarithm is \<^verbatim>\<open>-Infinity\<close>; the score lies between 0
  and 100, and the niche and the outside world are left as they were.
\<close>

theorem C4_competition_primary:
  assumes "falsy (AHREFS_API_KEY env)"
    and "competition niche = Fin c" and "0 \<le> c" and "c \<le> 1"
    and "estimated_cpc niche = Fin p" and "0 \<le> p"
    and "monthly_search_volume niche = Fin v" and "0 \<le> v"
  shows "calculateCompetitionScore env niche s
           = (Inr (Fin (spec_competition_score c v p), niche), s)
         \<and> 0 \<le> spec_competition_score c v p \<and> spec_competition_score c v p \<le> 100"
proof -
  have b: "0 \<le> spec_competition_score c v p \<and> spec_competition_score c v p \<le> 100"
    by (simp add: spec_competition_score_def clamp_def)
  have e: "calculateCompetitionScore env niche s
             = (Inr (Fin (spec_competition_score c v p), niche), s)"
  proof (cases "v = 0")
    case True
    then show ?thesis using assms
      by (simp add: calculateCompetitionScore_def spec_competition_score_def catch_def ret_def)
  next
    case False
    then have "0 < v" using assms by simp
    then show ?thesis using assms
      by (simp add: calculateCompetitionScore_def spec_competition_score_def clamp_def
          catch_def ret_def algebra_simps)
  qed
  show ?thesis using b e by simp
qed

theorem C4_competition_primary_witness:
  "falsy (AHREFS_API_KEY demo_env) \<and> competition demo_niche = Fin 0.5
   \<and> estimated_cpc demo_niche = Fin 3 \<and> monthly_search_volume demo_niche = Fin 1000
   \<and> calculateCompetitionScore demo_env demo_niche start = (Inr (Fin 34.2, demo_niche), start)
   \<and> spec_competition_score 0.5 1000 3 = 34.2"
proof -
  have h: "falsy (AHREFS_API_KEY demo_env)" "competition demo_niche = Fin 0.5"
    "estimated_cpc demo_niche = Fin 3" "monthly_search_volume demo_niche = Fin 1000"
    by (simp_all add: demo_env_def demo_niche_def falsy_def)
  have v: "spec_competition_score 0.5 1000 3 = 34.2"
    by (simp add: spec_competition_score_def clamp_def log10_1000)
  show ?thesis
    using C4_competition_primary [of demo_env demo_niche "0.5" 3 1000 start] h v by simp
qed

text \<open>
  C7. With a backlink provider configured, when its call throws,
  \<^verbatim>\<open>calculateCompetitionScore\<close> resolves to \<open>competition * 80 + 20\<close>, whatever the
  search volume and the CPC of the niche are; for a competition in \<open>[0,1]\<close> this lies
  between 20 and 100.
\<close>

theorem C7_competition_fallback:
  assumes "\<not> falsy (AHREFS_API_KEY env)"
    and "ahrefs_positions env (niche_name niche) (world s) = (Inl e, w)"
    and "competition niche = Fin c" and "0 \<le> c" and "c \<le> 1"
  shows "fst (calculateCompetitionScore env niche s) = Inr (Fin (c * 80 + 20), niche)
         \<and> 20 \<le> c * 80 + 20 \<and> c * 80 + 20 \<le> 100"
  using assms
  by (simp add: calculateCompetitionScore_def catch_def bind_def perform_def ret_def)

theorem C7_competition_fallback_witness:
  "\<not> falsy (AHREFS_API_KEY failing_provider_env)
   \<and> ahrefs_positions failing_provider_env (niche_name demo_niche) (world start)
       = (Inl (Exn ''API request failed''), ())
   \<and> competition demo_niche = Fin 0.5
   \<and> fst (calculateCompetitionScore failing_provider_env demo_niche start)
       = Inr (Fin 60, demo_niche)"
proof -
  have h: "\<not> falsy (AHREFS_API_KEY failing_provider_env)"
    "ahrefs_positions failing_provider_env (niche_name demo_niche) (world start)
       = (Inl (Exn ''API request failed''), ())"
    "competition demo_niche = Fin 0.5"
    by (simp_all add: failing_provider_env_def demo_env_def demo_niche_def falsy_def start_def)
  show ?thesis
    using C7_competition_fallback [OF h(1) h(2) h(3)] h by simp
qed

lemma demo_competition:
  "falsy (AHREFS_API_KEY env) \<Longrightarrow>
   calculateCompetitionScore env demo_niche s = (Inr (Fin 34.2, demo_niche), s)"
  by (simp add: calculateCompetitionScore_def demo_niche_def log10_1000 catch_def ret_def)

lemma demo_trending:
  "falsy (GOOGLE_TRENDS_API_KEY env) \<Longrightarrow> math_random env = (\<lambda>w. (1 / 2, w)) \<Longrightarrow>
   calculateTrendingScore env ''best deal'' s = (Inr (Fin 4.8), s)"
  by (simp add: calculateTrendingScore_def catch_def bind_def random_def ret_def)

subsection \<open>Rounding\<close>

lemma quantum_at:
  assumes "2 ^ 52 \<le> \<bar>x\<bar> * 2 ^ k" and "\<bar>x\<bar> * 2 ^ k < 2 ^ 53"
  shows "quantum x = 1 / 2 ^ k"
proof -
  have p: "0 < \<bar>x\<bar>"
  proof (rule ccontr)
    assume "\<not> 0 < \<bar>x\<bar>"
    then have "\<bar>x\<bar> * 2 ^ k = 0" by simp
    then show False using assms(1) by simp
  qed
  have e: "2 powr (52 - real k) = 2 ^ 52 / 2 ^ k" "2 powr (53 - real k) = 2 ^ 53 / 2 ^ k"
    by (simp_all add: powr_diff powr_realpow)
  have "2 powr (52 - real k) \<le> \<bar>x\<bar>" using assms(1) by (simp add: e divide_le_eq)
  then have 1: "52 - real k \<le> log 2 \<bar>x\<bar>" using p by (simp add: le_log_iff)
  have "\<bar>x\<bar> < 2 powr (53 - real k)" using assms(2) by (simp add: e less_divide_eq)
  then have 2: "log 2 \<bar>x\<bar> < 53 - real k" using p by (simp add: log_less_iff)
  have "\<lfloor>log 2 \<bar>x\<bar>\<rfloor> = 52 - int k" using 1 2 by (simp add: floor_eq_iff)
  then have "quantum x = 2 powr (- real k)" by (simp add: quantum_def)
  then show ?thesis by (simp add: powr_minus powr_realpow divide_inverse)
qed

text \<open>How a rounding is computed: scale the number into \<open>[2\<^sup>5\<^sup>2, 2\<^sup>5\<^sup>3)\<close>, round to an
  integer, scale back.\<close>

lemma binary64_at:
  assumes "2 ^ 52 \<le> \<bar>x\<bar> * 2 ^ k" and "\<bar>x\<bar> * 2 ^ k < 2 ^ 53"
    and "of_int (round_half_even (x * 2 ^ k)) / 2 ^ k = r"
    and "\<bar>r\<bar> < 2 ^ 1024"
  shows "binary64 x = Fin r"
proof -
  have "x \<noteq> 0" using assms(1) by auto
  then show ?thesis
    using assms(3,4) by (simp add: binary64_def quantum_at [OF assms(1,2)] abs_less_iff)
qed






subsection \<open>The weighted scores of the sample candidates, step by step\<close>






lemma lit_0_3: "binary64 0.3 = Fin (5404319552844595 / 2 ^ 54)"
  by (rule binary64_at [where k = 54]) (simp_all add: round_half_even_def frac_def)

lemma lit_0_7: "binary64 0.7 = Fin (3152519739159347 / 2 ^ 52)"
  by (rule binary64_at [where k = 53]) (simp_all add: round_half_even_def frac_def)






















lemma mod_1: "fmul (Fin (1 / 2)) (binary64 0.7) = Fin (3152519739159347 / 2 ^ 53)"
  unfolding lit_0_7 fmul_def jmul.simps jround.simps
  by (rule binary64_at [where k = 54]) (simp_all add: round_half_even_def frac_def)

lemma mod_2: "fadd (binary64 0.3) (Fin (3152519739159347 / 2 ^ 53)) = Fin (1463669878895411 / 2 ^ 51)"
  unfolding lit_0_3 fadd_def jadd.simps jround.simps
  by (rule binary64_at [where k = 53]) (simp_all add: round_half_even_def frac_def)

lemma mod_3: "fmul (Fin 4000) (Fin (1463669878895411 / 2 ^ 51)) = Fin (5717460464435199 / 2 ^ 41)"
  unfolding  fmul_def jmul.simps jround.simps
  by (rule binary64_at [where k = 41]) (simp_all add: round_half_even_def frac_def)

text \<open>The floor of candidate generation at a volume of 4000 and a random number of one
  half: \<open>0.3 + 0.5 * 0.7\<close> rounds to 0.6499999999999999 and the product to
  2599.9999999999995.\<close>

lemma searchVolume_4000:
  "jfloor (fmul (Fin 4000) (fadd (binary64 0.3) (fmul (Fin (1 / 2)) (binary64 0.7)))) = Fin 2599"
  by (simp only: mod_1 mod_2 mod_3) simp

subsection \<open>Filtering and ranking\<close>



lemma jneg_NaN: "(jneg x = NaN) = (x = NaN)"
  by (cases x) simp_all





text \<open>What the key of the specification's sort means: the result is in descending order
  of the weighted score, and candidates of equal score keep their input order.\<close>

lemma descending_le:
  "x \<noteq> NaN \<Longrightarrow> y \<noteq> NaN \<Longrightarrow> (descending x \<le> descending y) = jge x y"
  by (cases x; cases y) simp_all

lemma descending_eq: "(descending x = descending y) = (x = y)"
  by (cases x; cases y) simp_all

lemma spec_recommendations_sorted:
  "sorted (map (\<lambda>n. descending (spec_weighted n))
     (sort_key (\<lambda>n. descending (spec_weighted n)) cs))
   \<and> (\<forall>k. filter (\<lambda>n. descending (spec_weighted n) = k)
              (sort_key (\<lambda>n. descending (spec_weighted n)) cs)
            = filter (\<lambda>n. descending (spec_weighted n) = k) cs)"
  by (simp add: sort_key_stable)


lemma default_limit:
  "analyzeNiche_try env (OptObject (req\<lparr>opt_limit := None\<rparr>))
     = analyzeNiche_try env (OptObject (req\<lparr>opt_limit := Some 5\<rparr>))"
  by (simp add: analyzeNiche_try_def split: keywords_field.splits list.splits)


















subsection \<open>The whole analysis\<close>

lemma finishAnalysis_save_fails:
  "SAVE_ANALYSIS_RESULTS env = Some ''true'' \<Longrightarrow>
   saveAnalysisResults env (filteredNiches limit scoredNiches) s = (Inl e, s') \<Longrightarrow>
   finishAnalysis env limit includeKeywordData validKeywordData scoredNiches s = (Inl e, s')"
  by (simp add: finishAnalysis_def bind_def)

lemma demo_fetch:
  "KEYWORD_PLANNER_API_KEY env = Some ''key'' \<Longrightarrow>
   keyword_search env = keyword_search demo_env \<Longrightarrow>
   related_search env = related_search demo_env \<Longrightarrow>
   promise_all [fetchKeywordData env ''best deal''] start
     = (Inr [demo_data], \<lparr>world = (), trace = [FetchKeyword ''best deal'']\<rparr>)"
  by (simp add: fetchKeywordData_def fetchRelatedKeywords_def bind_def catch_def emit_def
      perform_def ret_def falsy_def demo_env_def demo_data_def start_def)

lemma demo_generate:
  "generateNicheRecommendations env [demo_data] (Prefs None) \<lparr>world = (), trace = t\<rparr>
     = (Inr [demo_niche], \<lparr>world = (), trace = t @ [GenerateCandidates]\<rparr>)"
  by (simp add: generateNicheRecommendations_def bind_def emit_def ret_def demo_data_def
      demo_niche_def)

lemma demo_scoreNiche:
  "falsy (AHREFS_API_KEY env) \<Longrightarrow> falsy (GOOGLE_TRENDS_API_KEY env) \<Longrightarrow>
   math_random env = (\<lambda>w. (1 / 2, w)) \<Longrightarrow>
   promise_all [scoreNiche env demo_niche] \<lparr>world = (), trace = t\<rparr>
     = (Inr [demo_scored], \<lparr>world = (), trace = t @ [ScoreNiche ''best deal'']\<rparr>)"
proof -
  assume a: "falsy (AHREFS_API_KEY env)" and g: "falsy (GOOGLE_TRENDS_API_KEY env)"
    and r: "math_random env = (\<lambda>w. (1 / 2, w))"
  have n: "niche_name demo_niche = ''best deal''" by (simp add: demo_niche_def)
  show ?thesis
    by (simp add: scoreNiche_def bind_def emit_def ret_def demo_competition [OF a]
        demo_trending [OF g r] demo_monetization n)
       (simp add: demo_niche_def demo_scored_def)
qed

lemma demo_filtered: "filteredNiches 5 [demo_scored] = [demo_scored]"
  by (simp add: filteredNiches_def js_sort_def js_slice0_def demo_scored_def)

lemma demo_save:
  "saveAnalysisResults failing_store_env [demo_scored] \<lparr>world = (), trace = t\<rparr>
     = (Inl (Exn ''Database error''),
        \<lparr>world = (), trace = t @ [Connect, Query BEGIN, Query (SELECT_niche ''best deal''),
                                   Query ROLLBACK, Release]\<rparr>)"
  by (simp add: saveAnalysisResults_def bind_def emit_def perform_def client_query_io_def
      save_niche_def release_def failing_store_env_def demo_env_def demo_scored_def)

lemma demo_recommendation:
  "recommendation_of demo_scored
     = \<lparr>r_niche_name = ''best deal'', r_monthly_search_volume = Fin 1000,
        r_competition_score = Fin 34.2, r_monetization_potential = Fin 6.4,
        r_trending_score = Fin 4.8, r_estimated_cpc = Fin 3, r_related_keywords = [],
        r_top_competitors = []\<rparr>"
  by (simp add: recommendation_of_def demo_scored_def)

lemma demo_success:
  "analyzeNiche demo_env (OptObject demo_request) start
     = (Inr (Success ''2024-01-01T00:00:00.000Z'' [recommendation_of demo_scored] None),
        \<lparr>world = (),
         trace = [FetchKeyword ''best deal'', GenerateCandidates, ScoreNiche ''best deal'']\<rparr>)"
proof -
  have k: "KEYWORD_PLANNER_API_KEY demo_env = Some ''key''"
    and a: "falsy (AHREFS_API_KEY demo_env)"
    and g: "falsy (GOOGLE_TRENDS_API_KEY demo_env)"
    and r: "math_random demo_env = (\<lambda>w. (1 / 2, w))"
    and sv: "SAVE_ANALYSIS_RESULTS demo_env = None"
    and dn: "date_now demo_env = (\<lambda>w. ''2024-01-01T00:00:00.000Z'')"
    by (simp_all add: demo_env_def falsy_def)
  have d: "kd_success demo_data" by (simp add: demo_data_def)
  have "analyzeKeywords demo_env [''best deal''] 5 (Prefs None) False start
     = (Inr (Success ''2024-01-01T00:00:00.000Z'' [recommendation_of demo_scored] None),
        \<lparr>world = (),
         trace = [FetchKeyword ''best deal'', GenerateCandidates, ScoreNiche ''best deal'']\<rparr>)"
    unfolding analyzeKeywords_def bind_def
    by (simp add: demo_fetch [OF k refl refl] d demo_generate demo_scoreNiche [OF a g r]
        finishAnalysis_def bind_def ret_def sv dn demo_filtered Let_def
        del: promise_all.simps)
  then show ?thesis
    by (simp add: analyzeNiche_def analyzeNiche_try_def catch_def demo_request_def)
qed

lemma demo_failure_try:
  "analyzeNiche_try failing_store_env (OptObject demo_request) start
     = (Inl (Exn ''Database error''),
        \<lparr>world = (),
         trace = [FetchKeyword ''best deal'', GenerateCandidates, ScoreNiche ''best deal'',
                  Connect, Query BEGIN, Query (SELECT_niche ''best deal''), Query ROLLBACK,
                  Release]\<rparr>)"
proof -
  have k: "KEYWORD_PLANNER_API_KEY failing_store_env = Some ''key''"
    and ks: "keyword_search failing_store_env = keyword_search demo_env"
    and rs: "related_search failing_store_env = related_search demo_env"
    and a: "falsy (AHREFS_API_KEY failing_store_env)"
    and g: "falsy (GOOGLE_TRENDS_API_KEY failing_store_env)"
    and r: "math_random failing_store_env = (\<lambda>w. (1 / 2, w))"
    and sv: "SAVE_ANALYSIS_RESULTS failing_store_env = Some ''true''"
    by (simp_all add: failing_store_env_def demo_env_def falsy_def)
  have d: "kd_success demo_data" by (simp add: demo_data_def)
  have "analyzeKeywords failing_store_env [''best deal''] 5 (Prefs None) False start
     = (Inl (Exn ''Database error''),
        \<lparr>world = (),
         trace = [FetchKeyword ''best deal'', GenerateCandidates, ScoreNiche ''best deal'',
                  Connect, Query BEGIN, Query (SELECT_niche ''best deal''), Query ROLLBACK,
                  Release]\<rparr>)"
    unfolding analyzeKeywords_def bind_def
    by (simp add: demo_fetch [OF k ks rs] d demo_generate demo_scoreNiche [OF a g r]
        finishAnalysis_save_fails [OF sv] demo_filtered demo_save Let_def
        del: promise_all.simps)
  then show ?thesis
    by (simp add: analyzeNiche_try_def demo_request_def)
qed

text \<open>
  C2. When persistence is enabled and the store refuses a query of the transaction,
  \<^verbatim>\<open>saveAnalysisResults\<close> rolls back and throws the error again, and \<^verbatim>\<open>analyzeNiche\<close>
  answers with \<^verbatim>\<open>success: false\<close> and the error's message: the recommendation it had
  computed (the one it returns on the same request without persistence) is not returned.
\<close>

theorem C2_persistence_failure_surfaces:
  "analyzeNiche failing_store_env (OptObject demo_request) start
     = (Inr (Failure ''Niche analysis failed: Database error'' (Some (Exn ''Database error''))),
        \<lparr>world = (),
         trace = [FetchKeyword ''best deal'', GenerateCandidates, ScoreNiche ''best deal'',
                  Connect, Query BEGIN, Query (SELECT_niche ''best deal''), Query ROLLBACK,
                  Release]\<rparr>)
   \<and> analyzeNiche demo_env (OptObject demo_request) start
     = (Inr (Success ''2024-01-01T00:00:00.000Z'' [recommendation_of demo_scored] None),
        \<lparr>world = (),
         trace = [FetchKeyword ''best deal'', GenerateCandidates, ScoreNiche ''best deal'']\<rparr>)"
proof -
  have "analyzeNiche failing_store_env (OptObject demo_request) start
     = (Inr (Failure ''Niche analysis failed: Database error'' (Some (Exn ''Database error''))),
        \<lparr>world = (),
         trace = [FetchKeyword ''best deal'', GenerateCandidates, ScoreNiche ''best deal'',
                  Connect, Query BEGIN, Query (SELECT_niche ''best deal''), Query ROLLBACK,
                  Release]\<rparr>)"
    by (simp add: analyzeNiche_def catch_def ret_def demo_failure_try)
  then show ?thesis using demo_success by simp
qed

text \<open>
  C8. For a request whose keyword list is empty, \<^verbatim>\<open>analyzeNiche\<close> resolves to the failure
  \<^verbatim>\<open>No keywords provided for niche analysis\<close> in the state it started in: nothing is
  fetched, generated, scored or saved, and the outside world is untouched.
\<close>

theorem C8_empty_keywords:
  "analyzeNiche env (OptObject \<lparr>opt_keywords = KwArray [], opt_limit = l,
       opt_preferences = p, opt_includeKeywordData = i\<rparr>) s
     = (Inr (Failure ''No keywords provided for niche analysis'' None), s)
   \<and> \<not> success (Failure ''No keywords provided for niche analysis'' None)"
  by (simp add: analyzeNiche_def analyzeNiche_try_def catch_def ret_def)

subsection \<open>What can reach the catch block of \<^verbatim>\<open>analyzeNiche\<close>\<close>







































end
